theory Spec2Isabelle
  imports Main "HOL-Library.Word"
begin

unbundle bit_operations_syntax

section \<open>The ILI9488 driver (ili9488.c, ili9488.h)\<close>

text \<open>
  The driver reaches the display controller only through \<^verbatim>\<open>ILI9488_WriteCommand\<close> and
  \<^verbatim>\<open>ILI9488_WriteData\<close>, the blocking \<^verbatim>\<open>HAL_Delay\<close> of the platform, and two writes to the
  RESET line in \<^verbatim>\<open>ILI9488_Init\<close>. The model records each of these as one event on a bus
  log, in program order. A \<open>Command\<close> carries the \<^verbatim>\<open>uint8_t\<close> handed to
  \<^verbatim>\<open>ILI9488_WriteCommand\<close>, a \<open>Data\<close> the \<^verbatim>\<open>uint32_t\<close> handed to \<^verbatim>\<open>ILI9488_WriteData\<close>
  (both pass their argument on unchanged to \<^verbatim>\<open>ILI9488_Write18\<close>, which drives the lines
  DB0..DB17 and strobes WR), a \<open>Delay\<close> the number of milliseconds asked of \<^verbatim>\<open>HAL_Delay\<close>,
  and \<open>Reset l\<close> the level written to the RESET line.
\<close>

datatype bus_event =
    Command "8 word"
  | Data "32 word"
  | Delay nat
  | Reset bool

text \<open>
  The only variable of the driver is the global \<^verbatim>\<open>ili9488_rotation\<close>. Its type
  \<^verbatim>\<open>ILI9488_Rotation_t\<close> is an enumeration; the header declares the parameter of
  \<^verbatim>\<open>ILI9488_Init\<close> as \<^verbatim>\<open>uint8_t\<close> and the implementation as \<^verbatim>\<open>ILI9488_Rotation_t\<close>, so the
  two types are the same 8-bit unsigned integer wherever the file compiles. The state of the
  model is that variable together with the bus log.
\<close>

record driver =
  ili9488_rotation :: "8 word"
  bus :: "bus_event list"

subsection \<open>Constants of the header and of the implementation\<close>

abbreviation ILI9488_PORTRAIT_WIDTH :: "'a::len word" where "ILI9488_PORTRAIT_WIDTH \<equiv> 320"
abbreviation ILI9488_PORTRAIT_HEIGHT :: "'a::len word" where "ILI9488_PORTRAIT_HEIGHT \<equiv> 480"
abbreviation ILI9488_LANDSCAPE_WIDTH :: "'a::len word" where "ILI9488_LANDSCAPE_WIDTH \<equiv> 480"
abbreviation ILI9488_LANDSCAPE_HEIGHT :: "'a::len word" where "ILI9488_LANDSCAPE_HEIGHT \<equiv> 320"

abbreviation ILI9488_ROTATION_PORTRAIT :: "8 word" where "ILI9488_ROTATION_PORTRAIT \<equiv> 0"
abbreviation ILI9488_ROTATION_LANDSCAPE :: "8 word" where "ILI9488_ROTATION_LANDSCAPE \<equiv> 1"
abbreviation ILI9488_ROTATION_PORTRAIT_INV :: "8 word" where "ILI9488_ROTATION_PORTRAIT_INV \<equiv> 2"
abbreviation ILI9488_ROTATION_LANDSCAPE_INV :: "8 word" where "ILI9488_ROTATION_LANDSCAPE_INV \<equiv> 3"

abbreviation CMD_SLEEP_IN :: "8 word" where "CMD_SLEEP_IN \<equiv> 0x10"
abbreviation CMD_SLEEP_OUT :: "8 word" where "CMD_SLEEP_OUT \<equiv> 0x11"
abbreviation CMD_DISPLAY_OFF :: "8 word" where "CMD_DISPLAY_OFF \<equiv> 0x28"
abbreviation CMD_DISPLAY_ON :: "8 word" where "CMD_DISPLAY_ON \<equiv> 0x29"
abbreviation CMD_MEMORY_WRITE :: "8 word" where "CMD_MEMORY_WRITE \<equiv> 0x2C"
abbreviation CMD_COLUMN_ADDR :: "8 word" where "CMD_COLUMN_ADDR \<equiv> 0x2A"
abbreviation CMD_PAGE_ADDR :: "8 word" where "CMD_PAGE_ADDR \<equiv> 0x2B"
abbreviation CMD_MEMORY_ACCESS :: "8 word" where "CMD_MEMORY_ACCESS \<equiv> 0x36"
abbreviation CMD_PIXEL_FORMAT :: "8 word" where "CMD_PIXEL_FORMAT \<equiv> 0x3A"

text \<open>The global initialiser: \<^verbatim>\<open>ili9488_rotation = ILI9488_ROTATION_PORTRAIT\<close>, nothing sent yet.\<close>

definition power_on :: driver where
  "power_on = \<lparr>ili9488_rotation = ILI9488_ROTATION_PORTRAIT, bus = []\<rparr>"

subsection \<open>Transaction layer\<close>

definition ILI9488_WriteCommand :: "8 word \<Rightarrow> driver \<Rightarrow> driver" where
  "ILI9488_WriteCommand cmd st = st\<lparr>bus := bus st @ [Command cmd]\<rparr>"

definition ILI9488_WriteData :: "32 word \<Rightarrow> driver \<Rightarrow> driver" where
  "ILI9488_WriteData data st = st\<lparr>bus := bus st @ [Data data]\<rparr>"

definition HAL_Delay :: "nat \<Rightarrow> driver \<Rightarrow> driver" where
  "HAL_Delay ms st = st\<lparr>bus := bus st @ [Delay ms]\<rparr>"

definition RESET_write :: "bool \<Rightarrow> driver \<Rightarrow> driver" where
  "RESET_write level st = st\<lparr>bus := bus st @ [Reset level]\<rparr>"

subsection \<open>Addressing\<close>

text \<open>
  The coordinates are \<^verbatim>\<open>uint16_t\<close>. In \<^verbatim>\<open>x0 >> 8\<close> and \<^verbatim>\<open>x0 & 0xFF\<close> the operand is promoted
  to a 32-bit integer first and the result converted to the \<^verbatim>\<open>uint32_t\<close> parameter of
  \<^verbatim>\<open>ILI9488_WriteData\<close>. When the stored rotation is none of the four enumerators neither
  branch is taken.
\<close>

definition ILI9488_SetAddressWindow ::
  "16 word \<Rightarrow> 16 word \<Rightarrow> 16 word \<Rightarrow> 16 word \<Rightarrow> driver \<Rightarrow> driver" where
  "ILI9488_SetAddressWindow x0 y0 x1 y1 st =
    (if ili9488_rotation st = ILI9488_ROTATION_PORTRAIT
        \<or> ili9488_rotation st = ILI9488_ROTATION_PORTRAIT_INV then
       let st = ILI9488_WriteCommand CMD_COLUMN_ADDR st;
           st = ILI9488_WriteData (drop_bit 8 (ucast x0)) st;
           st = ILI9488_WriteData (ucast x0 AND 0xFF) st;
           st = ILI9488_WriteData (drop_bit 8 (ucast x1)) st;
           st = ILI9488_WriteData (ucast x1 AND 0xFF) st;
           st = ILI9488_WriteCommand CMD_PAGE_ADDR st;
           st = ILI9488_WriteData (drop_bit 8 (ucast y0)) st;
           st = ILI9488_WriteData (ucast y0 AND 0xFF) st;
           st = ILI9488_WriteData (drop_bit 8 (ucast y1)) st;
           st = ILI9488_WriteData (ucast y1 AND 0xFF) st
       in ILI9488_WriteCommand CMD_MEMORY_WRITE st
     else if ili9488_rotation st = ILI9488_ROTATION_LANDSCAPE
        \<or> ili9488_rotation st = ILI9488_ROTATION_LANDSCAPE_INV then
       let st = ILI9488_WriteCommand CMD_COLUMN_ADDR st;
           st = ILI9488_WriteData (drop_bit 8 (ucast y0)) st;
           st = ILI9488_WriteData (ucast y0 AND 0xFF) st;
           st = ILI9488_WriteData (drop_bit 8 (ucast y1)) st;
           st = ILI9488_WriteData (ucast y1 AND 0xFF) st;
           st = ILI9488_WriteCommand CMD_PAGE_ADDR st;
           st = ILI9488_WriteData (drop_bit 8 (ucast x0)) st;
           st = ILI9488_WriteData (ucast x0 AND 0xFF) st;
           st = ILI9488_WriteData (drop_bit 8 (ucast x1)) st;
           st = ILI9488_WriteData (ucast x1 AND 0xFF) st
       in ILI9488_WriteCommand CMD_MEMORY_WRITE st
     else st)"

subsection \<open>Drawing primitives\<close>

text \<open>
  Every fill loop of the file has the shape
  \<^verbatim>\<open>for(uint32_t i = 0; i < n; i++){ ILI9488_WriteData(color & 0x3FFFF); }\<close>
  with a 32-bit counter. \<open>for_WriteData i n color\<close> is that loop entered with counter \<open>i\<close>.
\<close>

function for_WriteData :: "32 word \<Rightarrow> 32 word \<Rightarrow> 32 word \<Rightarrow> driver \<Rightarrow> driver" where
  "for_WriteData i n color st =
    (if i < n then for_WriteData (i + 1) n color (ILI9488_WriteData (color AND 0x3FFFF) st)
     else st)"
  by pat_completeness auto
termination
proof (relation "measure (\<lambda>(i, n, color, st). unat n - unat i)")
  show "wf (measure (\<lambda>(i :: 32 word, n :: 32 word, color :: 32 word, st :: driver). unat n - unat i))"
    by simp
next
  fix i n color :: "32 word" and st :: driver
  assume "i < n"
  then have "unat n - unat (i + 1) < unat n - unat i"
    using unsigned_less [of n, where 'a = nat]
    by (simp add: word_less_nat_alt unat_word_ariths)
  then show "((i + 1, n, color, ILI9488_WriteData (color AND 0x3FFFF) st), (i, n, color, st))
      \<in> measure (\<lambda>(i, n, color, st). unat n - unat i)"
    by simp
qed

declare for_WriteData.simps [simp del]

definition ILI9488_DrawPixel :: "16 word \<Rightarrow> 16 word \<Rightarrow> 32 word \<Rightarrow> driver \<Rightarrow> driver" where
  "ILI9488_DrawPixel x y color st =
    (if ili9488_rotation st = ILI9488_ROTATION_PORTRAIT
        \<or> ili9488_rotation st = ILI9488_ROTATION_PORTRAIT_INV then
       let st = ILI9488_SetAddressWindow x y x y st
       in ILI9488_WriteData (color AND 0x3FFFF) st
     else if ili9488_rotation st = ILI9488_ROTATION_LANDSCAPE
        \<or> ili9488_rotation st = ILI9488_ROTATION_LANDSCAPE_INV then
       let st = ILI9488_SetAddressWindow y x y x st
       in ILI9488_WriteData (color AND 0x3FFFF) st
     else st)"

definition ILI9488_DrawLine ::
  "16 word \<Rightarrow> 16 word \<Rightarrow> 16 word \<Rightarrow> 16 word \<Rightarrow> 32 word \<Rightarrow> driver \<Rightarrow> driver" where
  "ILI9488_DrawLine x0 y0 x1 y1 color st =
    (if ili9488_rotation st = ILI9488_ROTATION_PORTRAIT
        \<or> ili9488_rotation st = ILI9488_ROTATION_PORTRAIT_INV then
       let st = ILI9488_SetAddressWindow x0 y0 x1 y1 st
       in for_WriteData 0 (ILI9488_PORTRAIT_WIDTH * ILI9488_PORTRAIT_HEIGHT) color st
     else if ili9488_rotation st = ILI9488_ROTATION_LANDSCAPE
        \<or> ili9488_rotation st = ILI9488_ROTATION_LANDSCAPE_INV then
       let st = ILI9488_SetAddressWindow y0 x0 y1 x1 st
       in for_WriteData 0 (ILI9488_LANDSCAPE_WIDTH * ILI9488_LANDSCAPE_HEIGHT) color st
     else st)"

text \<open>
  In \<^verbatim>\<open>x + w - 1\<close> the \<^verbatim>\<open>uint16_t\<close> operands are promoted to 32-bit integers and the result
  is converted back to the \<^verbatim>\<open>uint16_t\<close> parameter of the callee; in \<^verbatim>\<open>(uint32_t)w * h\<close>
  both factors are 32-bit.
\<close>

definition ILI9488_DrawRect ::
  "16 word \<Rightarrow> 16 word \<Rightarrow> 16 word \<Rightarrow> 16 word \<Rightarrow> 32 word \<Rightarrow> driver \<Rightarrow> driver" where
  "ILI9488_DrawRect x y w h color st =
    (if ili9488_rotation st = ILI9488_ROTATION_PORTRAIT
        \<or> ili9488_rotation st = ILI9488_ROTATION_PORTRAIT_INV then
       let st = ILI9488_SetAddressWindow x y
                  (ucast ((ucast x :: 32 word) + ucast w - 1))
                  (ucast ((ucast y :: 32 word) + ucast h - 1)) st
       in for_WriteData 0 (ucast w * ucast h) color st
     else if ili9488_rotation st = ILI9488_ROTATION_LANDSCAPE
        \<or> ili9488_rotation st = ILI9488_ROTATION_LANDSCAPE_INV then
       let st = ILI9488_SetAddressWindow y x
                  (ucast ((ucast y :: 32 word) + ucast h - 1))
                  (ucast ((ucast x :: 32 word) + ucast w - 1)) st
       in for_WriteData 0 (ucast h * ucast w) color st
     else st)"

definition ILI9488_FillRect ::
  "16 word \<Rightarrow> 16 word \<Rightarrow> 16 word \<Rightarrow> 16 word \<Rightarrow> 32 word \<Rightarrow> driver \<Rightarrow> driver" where
  "ILI9488_FillRect x y w h color st =
    (if ili9488_rotation st = ILI9488_ROTATION_PORTRAIT
        \<or> ili9488_rotation st = ILI9488_ROTATION_PORTRAIT_INV then
       let st = ILI9488_SetAddressWindow x y
                  (ucast ((ucast x :: 32 word) + ucast w - 1))
                  (ucast ((ucast y :: 32 word) + ucast h - 1)) st
       in for_WriteData 0 (ucast w * ucast h) color st
     else if ili9488_rotation st = ILI9488_ROTATION_LANDSCAPE
        \<or> ili9488_rotation st = ILI9488_ROTATION_LANDSCAPE_INV then
       let st = ILI9488_SetAddressWindow y x
                  (ucast ((ucast y :: 32 word) + ucast h - 1))
                  (ucast ((ucast x :: 32 word) + ucast w - 1)) st
       in for_WriteData 0 (ucast h * ucast w) color st
     else st)"

definition ILI9488_DrawCircle ::
  "16 word \<Rightarrow> 16 word \<Rightarrow> 16 word \<Rightarrow> 32 word \<Rightarrow> driver \<Rightarrow> driver" where
  "ILI9488_DrawCircle x0 y0 radius color st =
    (if ili9488_rotation st = ILI9488_ROTATION_PORTRAIT
        \<or> ili9488_rotation st = ILI9488_ROTATION_PORTRAIT_INV then
       let st = ILI9488_SetAddressWindow x0 y0
                  (ucast ((ucast x0 :: 32 word) + ucast radius))
                  (ucast ((ucast y0 :: 32 word) + ucast radius)) st
       in for_WriteData 0 (ILI9488_PORTRAIT_WIDTH * ILI9488_PORTRAIT_HEIGHT) color st
     else if ili9488_rotation st = ILI9488_ROTATION_LANDSCAPE
        \<or> ili9488_rotation st = ILI9488_ROTATION_LANDSCAPE_INV then
       let st = ILI9488_SetAddressWindow y0 x0
                  (ucast ((ucast y0 :: 32 word) + ucast radius))
                  (ucast ((ucast x0 :: 32 word) + ucast radius)) st
       in for_WriteData 0 (ILI9488_LANDSCAPE_WIDTH * ILI9488_LANDSCAPE_HEIGHT) color st
     else st)"

definition ILI9488_FillCircle ::
  "16 word \<Rightarrow> 16 word \<Rightarrow> 16 word \<Rightarrow> 32 word \<Rightarrow> driver \<Rightarrow> driver" where
  "ILI9488_FillCircle x0 y0 radius color st =
    (if ili9488_rotation st = ILI9488_ROTATION_PORTRAIT
        \<or> ili9488_rotation st = ILI9488_ROTATION_PORTRAIT_INV then
       let st = ILI9488_SetAddressWindow x0 y0
                  (ucast ((ucast x0 :: 32 word) + ucast radius))
                  (ucast ((ucast y0 :: 32 word) + ucast radius)) st
       in for_WriteData 0 (ILI9488_PORTRAIT_WIDTH * ILI9488_PORTRAIT_HEIGHT) color st
     else if ili9488_rotation st = ILI9488_ROTATION_LANDSCAPE
        \<or> ili9488_rotation st = ILI9488_ROTATION_LANDSCAPE_INV then
       let st = ILI9488_SetAddressWindow y0 x0
                  (ucast ((ucast y0 :: 32 word) + ucast radius))
                  (ucast ((ucast x0 :: 32 word) + ucast radius)) st
       in for_WriteData 0 (ILI9488_LANDSCAPE_WIDTH * ILI9488_LANDSCAPE_HEIGHT) color st
     else st)"

definition ILI9488_FillBackground :: "32 word \<Rightarrow> driver \<Rightarrow> driver" where
  "ILI9488_FillBackground color st =
    (if ili9488_rotation st = ILI9488_ROTATION_PORTRAIT
        \<or> ili9488_rotation st = ILI9488_ROTATION_PORTRAIT_INV then
       let st = ILI9488_SetAddressWindow 0 0
                  (ILI9488_PORTRAIT_WIDTH - 1) (ILI9488_PORTRAIT_HEIGHT - 1) st
       in for_WriteData 0 (ILI9488_PORTRAIT_WIDTH * ILI9488_PORTRAIT_HEIGHT) color st
     else if ili9488_rotation st = ILI9488_ROTATION_LANDSCAPE
        \<or> ili9488_rotation st = ILI9488_ROTATION_LANDSCAPE_INV then
       let st = ILI9488_SetAddressWindow 0 0
                  (ILI9488_LANDSCAPE_WIDTH - 1) (ILI9488_LANDSCAPE_HEIGHT - 1) st
       in for_WriteData 0 (ILI9488_LANDSCAPE_WIDTH * ILI9488_LANDSCAPE_HEIGHT) color st
     else st)"

subsection \<open>Rotation, initialisation and power control\<close>

definition ili9488_rotations :: "8 word list" where
  "ili9488_rotations = [0x48, 0x28, 0x88, 0xE8]"

text \<open>
  \<^verbatim>\<open>ILI9488_SetRotation\<close> receives \<^verbatim>\<open>rotation\<close> by value: the clamp changes its own copy,
  which then indexes the table (always within its four entries). The function does not
  assign the global \<^verbatim>\<open>ili9488_rotation\<close>.
\<close>

definition ILI9488_SetRotation :: "8 word \<Rightarrow> driver \<Rightarrow> driver" where
  "ILI9488_SetRotation rotation st =
    (let rotation = (if rotation > ILI9488_ROTATION_LANDSCAPE_INV
                     then ILI9488_ROTATION_PORTRAIT else rotation);
         st = ILI9488_WriteCommand CMD_MEMORY_ACCESS st
     in ILI9488_WriteData (ucast (ili9488_rotations ! unat rotation)) st)"

definition ILI9488_Init :: "8 word \<Rightarrow> driver \<Rightarrow> driver" where
  "ILI9488_Init rotation st =
    (let st = RESET_write False st;
         st = HAL_Delay 20 st;
         st = RESET_write True st;
         st = HAL_Delay 120 st;
         st = ILI9488_WriteCommand CMD_SLEEP_OUT st;
         st = HAL_Delay 120 st;
         st = ILI9488_WriteCommand CMD_PIXEL_FORMAT st;
         st = ILI9488_WriteData 0x66 st;
         st = ILI9488_SetRotation rotation st;
         st = st\<lparr>ili9488_rotation := rotation\<rparr>;
         st = ILI9488_WriteCommand CMD_DISPLAY_ON st
     in HAL_Delay 20 st)"

definition ILI9488_DisplayOff :: "driver \<Rightarrow> driver" where
  "ILI9488_DisplayOff st = (let st = ILI9488_WriteCommand CMD_DISPLAY_OFF st in HAL_Delay 20 st)"

definition ILI9488_DisplayOn :: "driver \<Rightarrow> driver" where
  "ILI9488_DisplayOn st = (let st = ILI9488_WriteCommand CMD_DISPLAY_ON st in HAL_Delay 20 st)"

definition ILI9488_Sleep :: "driver \<Rightarrow> driver" where
  "ILI9488_Sleep st =
    (let st = ILI9488_DisplayOff st;
         st = ILI9488_WriteCommand CMD_SLEEP_IN st
     in HAL_Delay 120 st)"

definition ILI9488_WakeUp :: "driver \<Rightarrow> driver" where
  "ILI9488_WakeUp st =
    (let st = ILI9488_DisplayOn st;
         st = ILI9488_WriteCommand CMD_SLEEP_OUT st
     in HAL_Delay 20 st)"


subsection \<open>The specification's vocabulary\<close>

text \<open>
  The specification groups the four orientations into a portrait family and a landscape
  family. It describes an address window \<open>(x0, y0, x1, y1)\<close> as a column-address
  transaction and a page-address transaction, each one command followed by the two
  coordinates of the range as high byte then low byte, closed by the memory-write command;
  in the portrait family the column range is \<open>(x0, x1)\<close> and the page range \<open>(y0, y1)\<close>,
  in the landscape family the column range is \<open>(y0, y1)\<close> and the page range \<open>(x0, x1)\<close>.
  \<open>window r x0 y0 x1 y1\<close> is that sequence of transactions for the stored rotation \<open>r\<close>;
  it is empty when \<open>r\<close> belongs to neither family.
\<close>

definition portrait_family :: "8 word \<Rightarrow> bool" where
  "portrait_family r \<longleftrightarrow> r = ILI9488_ROTATION_PORTRAIT \<or> r = ILI9488_ROTATION_PORTRAIT_INV"

definition landscape_family :: "8 word \<Rightarrow> bool" where
  "landscape_family r \<longleftrightarrow> r = ILI9488_ROTATION_LANDSCAPE \<or> r = ILI9488_ROTATION_LANDSCAPE_INV"

definition coordinate_bytes :: "16 word \<Rightarrow> bus_event list" where
  "coordinate_bytes v = [Data (drop_bit 8 (ucast v)), Data (ucast v AND 0xFF)]"

definition address_range :: "8 word \<Rightarrow> 16 word \<Rightarrow> 16 word \<Rightarrow> bus_event list" where
  "address_range opcode a b = Command opcode # coordinate_bytes a @ coordinate_bytes b"

definition window ::
  "8 word \<Rightarrow> 16 word \<Rightarrow> 16 word \<Rightarrow> 16 word \<Rightarrow> 16 word \<Rightarrow> bus_event list" where
  "window r x0 y0 x1 y1 =
    (if portrait_family r then
       address_range CMD_COLUMN_ADDR x0 x1 @ address_range CMD_PAGE_ADDR y0 y1
         @ [Command CMD_MEMORY_WRITE]
     else if landscape_family r then
       address_range CMD_COLUMN_ADDR y0 y1 @ address_range CMD_PAGE_ADDR x0 x1
         @ [Command CMD_MEMORY_WRITE]
     else [])"

text \<open>The panel dimensions of the two families: 320 by 480 and 480 by 320.\<close>

definition panel_width :: "8 word \<Rightarrow> 16 word" where
  "panel_width r = (if landscape_family r then ILI9488_LANDSCAPE_WIDTH else ILI9488_PORTRAIT_WIDTH)"

definition panel_height :: "8 word \<Rightarrow> 16 word" where
  "panel_height r = (if landscape_family r then ILI9488_LANDSCAPE_HEIGHT else ILI9488_PORTRAIT_HEIGHT)"

section \<open>What each operation puts on the bus\<close>

lemmas family_defs = portrait_family_def landscape_family_def

lemmas window_defs = window_def family_defs address_range_def coordinate_bytes_def

subsection \<open>Integer promotion and the 16-bit parameters\<close>

lemma ucast_sum_minus_1:
  "(ucast ((ucast (x :: 16 word) :: 32 word) + ucast (w :: 16 word) - 1) :: 16 word) = x + w - 1"
proof -
  have e: "(ucast x :: 32 word) + ucast w - 1 = word_of_int (uint x + uint w - 1)"
    by simp
  have "(ucast (word_of_int (uint x + uint w - 1) :: 32 word) :: 16 word)
      = word_of_int (uint x + uint w - 1)"
    by (rule ucast_down_wi) (simp add: is_down)
  then show ?thesis unfolding e by simp
qed

lemma ucast_sum:
  "(ucast ((ucast (x :: 16 word) :: 32 word) + ucast (r :: 16 word)) :: 16 word) = x + r"
proof -
  have e: "(ucast x :: 32 word) + ucast r = word_of_int (uint x + uint r)"
    by simp
  have "(ucast (word_of_int (uint x + uint r) :: 32 word) :: 16 word)
      = word_of_int (uint x + uint r)"
    by (rule ucast_down_wi) (simp add: is_down)
  then show ?thesis unfolding e by simp
qed

text \<open>The product of two 16-bit factors never wraps in 32 bits.\<close>

lemma unat_pixel_count:
  "unat ((ucast (w :: 16 word) :: 32 word) * ucast (h :: 16 word)) = unat w * unat h"
proof -
  have bw: "unat w < 65536" and bh: "unat h < 65536"
    using unsigned_less [of w, where 'a = nat] unsigned_less [of h, where 'a = nat]
    by simp_all
  then have "unat w * unat h < 65536 * 65536"
    by (rule mult_strict_mono') simp_all
  moreover have "take_bit 32 (unat w) = unat w" "take_bit 32 (unat h) = unat h"
    using bw bh by (simp_all add: take_bit_nat_eq_self)
  ultimately show ?thesis
    by (simp add: unat_word_ariths unsigned_ucast_eq)
qed

lemma rotation_cases:
  "(r :: 8 word) \<le> 3 \<Longrightarrow> r = 0 \<or> r = 1 \<or> r = 2 \<or> r = 3"
  by (simp add: word_le_nat_alt word_unat_eq_iff) arith

subsection \<open>The fill loop and the address window\<close>

text \<open>The loop runs \<open>n - i\<close> times, and each round is one data write of the masked colour.\<close>

lemma for_WriteData_eq:
  "for_WriteData i n color st =
     st\<lparr>bus := bus st @ replicate (unat n - unat i) (Data (color AND 0x3FFFF))\<rparr>"
proof (induction i n color st rule: for_WriteData.induct)
  case (1 i n color st)
  show ?case
  proof (cases "i < n")
    case True
    then have "unat n - unat i = Suc (unat n - unat (i + 1))"
      using unsigned_less [of n, where 'a = nat]
      by (simp add: word_less_nat_alt unat_word_ariths)
    with True "1.IH" show ?thesis
      by (subst for_WriteData.simps) (simp add: ILI9488_WriteData_def)
  next
    case False
    then have "unat n - unat i = 0"
      by (simp add: word_less_nat_alt)
    with False show ?thesis
      by (subst for_WriteData.simps) simp
  qed
qed

lemma SetAddressWindow_eq:
  "ILI9488_SetAddressWindow x0 y0 x1 y1 st =
     st\<lparr>bus := bus st @ window (ili9488_rotation st) x0 y0 x1 y1\<rparr>"
  by (simp add: ILI9488_SetAddressWindow_def window_defs ILI9488_WriteCommand_def
      ILI9488_WriteData_def Let_def)

subsection \<open>The primitives\<close>

lemma DrawPixel_eq:
  "ILI9488_DrawPixel x y color st =
    (if portrait_family (ili9488_rotation st) then
       st\<lparr>bus := bus st @ window (ili9488_rotation st) x y x y
                @ [Data (color AND 0x3FFFF)]\<rparr>
     else if landscape_family (ili9488_rotation st) then
       st\<lparr>bus := bus st @ window (ili9488_rotation st) y x y x
                @ [Data (color AND 0x3FFFF)]\<rparr>
     else st)"
  by (simp add: ILI9488_DrawPixel_def family_defs SetAddressWindow_eq ILI9488_WriteData_def
      Let_def)

lemma DrawLine_eq:
  "ILI9488_DrawLine x0 y0 x1 y1 color st =
    (if portrait_family (ili9488_rotation st) then
       st\<lparr>bus := bus st @ window (ili9488_rotation st) x0 y0 x1 y1
                @ replicate 153600 (Data (color AND 0x3FFFF))\<rparr>
     else if landscape_family (ili9488_rotation st) then
       st\<lparr>bus := bus st @ window (ili9488_rotation st) y0 x0 y1 x1
                @ replicate 153600 (Data (color AND 0x3FFFF))\<rparr>
     else st)"
  by (simp add: ILI9488_DrawLine_def family_defs SetAddressWindow_eq for_WriteData_eq Let_def)

lemma FillRect_eq:
  "ILI9488_FillRect x y w h color st =
    (if portrait_family (ili9488_rotation st) then
       st\<lparr>bus := bus st @ window (ili9488_rotation st) x y (x + w - 1) (y + h - 1)
                @ replicate (unat w * unat h) (Data (color AND 0x3FFFF))\<rparr>
     else if landscape_family (ili9488_rotation st) then
       st\<lparr>bus := bus st @ window (ili9488_rotation st) y x (y + h - 1) (x + w - 1)
                @ replicate (unat w * unat h) (Data (color AND 0x3FFFF))\<rparr>
     else st)"
  by (simp add: ILI9488_FillRect_def family_defs SetAddressWindow_eq for_WriteData_eq
      ucast_sum_minus_1 unat_pixel_count Let_def mult.commute)

lemma DrawCircle_eq:
  "ILI9488_DrawCircle x0 y0 radius color st =
    (if portrait_family (ili9488_rotation st) then
       st\<lparr>bus := bus st @ window (ili9488_rotation st) x0 y0 (x0 + radius) (y0 + radius)
                @ replicate 153600 (Data (color AND 0x3FFFF))\<rparr>
     else if landscape_family (ili9488_rotation st) then
       st\<lparr>bus := bus st @ window (ili9488_rotation st) y0 x0 (y0 + radius) (x0 + radius)
                @ replicate 153600 (Data (color AND 0x3FFFF))\<rparr>
     else st)"
  by (simp add: ILI9488_DrawCircle_def family_defs SetAddressWindow_eq for_WriteData_eq
      ucast_sum Let_def)

lemma FillCircle_eq:
  "ILI9488_FillCircle x0 y0 radius color st =
    (if portrait_family (ili9488_rotation st) then
       st\<lparr>bus := bus st @ window (ili9488_rotation st) x0 y0 (x0 + radius) (y0 + radius)
                @ replicate 153600 (Data (color AND 0x3FFFF))\<rparr>
     else if landscape_family (ili9488_rotation st) then
       st\<lparr>bus := bus st @ window (ili9488_rotation st) y0 x0 (y0 + radius) (x0 + radius)
                @ replicate 153600 (Data (color AND 0x3FFFF))\<rparr>
     else st)"
  by (simp add: ILI9488_FillCircle_def family_defs SetAddressWindow_eq for_WriteData_eq
      ucast_sum Let_def)

lemma FillBackground_eq:
  "ILI9488_FillBackground color st =
    (if portrait_family (ili9488_rotation st) then
       st\<lparr>bus := bus st @ window (ili9488_rotation st) 0 0 319 479
                @ replicate 153600 (Data (color AND 0x3FFFF))\<rparr>
     else if landscape_family (ili9488_rotation st) then
       st\<lparr>bus := bus st @ window (ili9488_rotation st) 0 0 479 319
                @ replicate 153600 (Data (color AND 0x3FFFF))\<rparr>
     else st)"
  by (simp add: ILI9488_FillBackground_def family_defs SetAddressWindow_eq for_WriteData_eq
      Let_def)

subsection \<open>Rotation and initialisation\<close>

lemma SetRotation_eq:
  "ILI9488_SetRotation rotation st =
     st\<lparr>bus := bus st @ [Command CMD_MEMORY_ACCESS,
       Data (if rotation = 0 then 0x48 else if rotation = 1 then 0x28
             else if rotation = 2 then 0x88 else if rotation = 3 then 0xE8 else 0x48)]\<rparr>"
proof (cases "3 < rotation")
  case True
  then have "rotation \<noteq> 0" "rotation \<noteq> 1" "rotation \<noteq> 2" "rotation \<noteq> 3"
    by auto
  with True show ?thesis
    by (simp add: ILI9488_SetRotation_def ili9488_rotations_def ILI9488_WriteCommand_def
        ILI9488_WriteData_def)
next
  case False
  then have "rotation = 0 \<or> rotation = 1 \<or> rotation = 2 \<or> rotation = 3"
    by (intro rotation_cases) simp
  then show ?thesis
    by (auto simp add: ILI9488_SetRotation_def ili9488_rotations_def ILI9488_WriteCommand_def
        ILI9488_WriteData_def)
qed

lemma Init_eq:
  "ILI9488_Init rotation st =
     \<lparr>ili9488_rotation = rotation,
      bus = bus st @ [Reset False, Delay 20, Reset True, Delay 120,
        Command CMD_SLEEP_OUT, Delay 120, Command CMD_PIXEL_FORMAT, Data 0x66,
        Command CMD_MEMORY_ACCESS,
        Data (if rotation = 0 then 0x48 else if rotation = 1 then 0x28
              else if rotation = 2 then 0x88 else if rotation = 3 then 0xE8 else 0x48),
        Command CMD_DISPLAY_ON, Delay 20]\<rparr>"
  by (simp add: ILI9488_Init_def SetRotation_eq RESET_write_def HAL_Delay_def
      ILI9488_WriteCommand_def ILI9488_WriteData_def Let_def)


section \<open>The claims of the specification\<close>

subsection \<open>Orientation state\<close>

text \<open>
  Claim C1 says that after \<^verbatim>\<open>init(Portrait)\<close> a call \<^verbatim>\<open>setRotation(Landscape)\<close> updates the
  stored orientation, so that \<^verbatim>\<open>drawPixel(10,20,color)\<close> issues the window with swapped
  coordinates \<open>(20,10,20,10)\<close>. \<^verbatim>\<open>ILI9488_SetRotation\<close> has no assignment to
  \<^verbatim>\<open>ili9488_rotation\<close>: in that scenario the stored orientation is still Portrait, and the
  pixel is not drawn through the window \<open>(20,10,20,10)\<close>.
\<close>

theorem C1_counterexample:
  "ili9488_rotation (ILI9488_SetRotation ILI9488_ROTATION_LANDSCAPE
       (ILI9488_Init ILI9488_ROTATION_PORTRAIT power_on)) \<noteq> ILI9488_ROTATION_LANDSCAPE
   \<and> ILI9488_DrawPixel 10 20 0x3FFFF
       (ILI9488_SetRotation ILI9488_ROTATION_LANDSCAPE
         (ILI9488_Init ILI9488_ROTATION_PORTRAIT power_on))
     \<noteq> ILI9488_WriteData 0x3FFFF
         (ILI9488_SetAddressWindow 20 10 20 10
           (ILI9488_SetRotation ILI9488_ROTATION_LANDSCAPE
             (ILI9488_Init ILI9488_ROTATION_PORTRAIT power_on)))
   \<and> ILI9488_DrawPixel 10 20 0x3FFFF
       (ILI9488_SetRotation ILI9488_ROTATION_LANDSCAPE
         (ILI9488_Init ILI9488_ROTATION_PORTRAIT power_on))
     = \<lparr>ili9488_rotation = ILI9488_ROTATION_PORTRAIT,
        bus = [Reset False, Delay 20, Reset True, Delay 120,
               Command CMD_SLEEP_OUT, Delay 120, Command CMD_PIXEL_FORMAT, Data 0x66,
               Command CMD_MEMORY_ACCESS, Data 0x48, Command CMD_DISPLAY_ON, Delay 20,
               Command CMD_MEMORY_ACCESS, Data 0x28,
               Command CMD_COLUMN_ADDR, Data 0, Data 10, Data 0, Data 10,
               Command CMD_PAGE_ADDR, Data 0, Data 20, Data 0, Data 20,
               Command CMD_MEMORY_WRITE, Data 0x3FFFF]\<rparr>"
  by (simp add: DrawPixel_eq SetAddressWindow_eq SetRotation_eq Init_eq ILI9488_WriteData_def
      window_defs power_on_def)

text \<open>
  Claim C1, as the code has it. After \<^verbatim>\<open>init(Portrait)\<close>, \<^verbatim>\<open>setRotation(Landscape)\<close> sends
  command 0x36 and data 0x28 and nothing else; no call of \<^verbatim>\<open>setRotation\<close> changes the stored
  orientation, which only \<^verbatim>\<open>init\<close> writes. The following \<^verbatim>\<open>drawPixel(10,20,color)\<close> therefore
  issues the unswapped window \<open>(10,20,10,20)\<close> and one data write of the masked colour. The
  orientation stored by \<^verbatim>\<open>init\<close> persists and is observed by later drawing calls: after
  \<^verbatim>\<open>init(Landscape)\<close>, \<^verbatim>\<open>drawPixel(10,20,color)\<close> issues the window with swapped coordinates
  \<open>(20,10,20,10)\<close>.
\<close>

theorem C1_rotation_stored_by_Init_only:
  "ILI9488_SetRotation ILI9488_ROTATION_LANDSCAPE (ILI9488_Init ILI9488_ROTATION_PORTRAIT st) =
     (ILI9488_Init ILI9488_ROTATION_PORTRAIT st)
       \<lparr>bus := bus (ILI9488_Init ILI9488_ROTATION_PORTRAIT st)
                 @ [Command CMD_MEMORY_ACCESS, Data 0x28]\<rparr>
   \<and> ili9488_rotation (ILI9488_SetRotation rotation st) = ili9488_rotation st
   \<and> ili9488_rotation (ILI9488_Init rotation st) = rotation
   \<and> ILI9488_DrawPixel 10 20 color
       (ILI9488_SetRotation ILI9488_ROTATION_LANDSCAPE (ILI9488_Init ILI9488_ROTATION_PORTRAIT st))
     = ILI9488_WriteData (color AND 0x3FFFF)
         (ILI9488_SetAddressWindow 10 20 10 20
           (ILI9488_SetRotation ILI9488_ROTATION_LANDSCAPE
             (ILI9488_Init ILI9488_ROTATION_PORTRAIT st)))
   \<and> ILI9488_DrawPixel 10 20 color (ILI9488_Init ILI9488_ROTATION_LANDSCAPE st)
     = ILI9488_WriteData (color AND 0x3FFFF)
         (ILI9488_SetAddressWindow 20 10 20 10 (ILI9488_Init ILI9488_ROTATION_LANDSCAPE st))"
  by (simp add: DrawPixel_eq SetAddressWindow_eq SetRotation_eq Init_eq ILI9488_WriteData_def
      family_defs)

text \<open>
  Claim C2 says that the stored orientation is always one of the four enumerated values,
  because an out-of-range input is clamped to Portrait before it is stored. The clamp of
  \<^verbatim>\<open>ILI9488_SetRotation\<close> acts on that function's own copy of the argument; \<^verbatim>\<open>ILI9488_Init\<close>
  then stores the argument it was given. \<^verbatim>\<open>ILI9488_Init(7)\<close> sends the Portrait register value
  0x48 to the controller and leaves 7 in \<^verbatim>\<open>ili9488_rotation\<close>.
\<close>

theorem C2_Init_stores_unclamped_rotation:
  "ILI9488_Init 7 power_on =
     \<lparr>ili9488_rotation = 7,
      bus = [Reset False, Delay 20, Reset True, Delay 120,
             Command CMD_SLEEP_OUT, Delay 120, Command CMD_PIXEL_FORMAT, Data 0x66,
             Command CMD_MEMORY_ACCESS, Data 0x48, Command CMD_DISPLAY_ON, Delay 20]\<rparr>
   \<and> ili9488_rotation (ILI9488_Init 7 power_on) \<noteq> ILI9488_ROTATION_PORTRAIT"
  by (simp add: Init_eq power_on_def)

text \<open>
  Claim C5. For every input value, \<^verbatim>\<open>setRotation\<close> sends exactly one command byte 0x36
  followed by exactly one data byte, the entry of the fixed table for the clamped value:
  0x48 for Portrait, 0x28 for Landscape, 0x88 for PortraitInverted, 0xE8 for
  LandscapeInverted, and 0x48, the Portrait entry, for every other value, that is for every
  value of at least 4. Nothing else changes.
\<close>

theorem C5_SetRotation:
  "ILI9488_SetRotation rotation st =
     st\<lparr>bus := bus st @ [Command 0x36,
       Data (if rotation = ILI9488_ROTATION_PORTRAIT then 0x48
             else if rotation = ILI9488_ROTATION_LANDSCAPE then 0x28
             else if rotation = ILI9488_ROTATION_PORTRAIT_INV then 0x88
             else if rotation = ILI9488_ROTATION_LANDSCAPE_INV then 0xE8
             else 0x48)]\<rparr>
   \<and> ucast (ili9488_rotations ! unat (if 4 \<le> rotation then ILI9488_ROTATION_PORTRAIT else rotation))
     = (if rotation = ILI9488_ROTATION_PORTRAIT then 0x48
        else if rotation = ILI9488_ROTATION_LANDSCAPE then 0x28
        else if rotation = ILI9488_ROTATION_PORTRAIT_INV then 0x88
        else if rotation = ILI9488_ROTATION_LANDSCAPE_INV then 0xE8
        else (0x48 :: 32 word))"
proof
  show "ILI9488_SetRotation rotation st =
     st\<lparr>bus := bus st @ [Command 0x36,
       Data (if rotation = ILI9488_ROTATION_PORTRAIT then 0x48
             else if rotation = ILI9488_ROTATION_LANDSCAPE then 0x28
             else if rotation = ILI9488_ROTATION_PORTRAIT_INV then 0x88
             else if rotation = ILI9488_ROTATION_LANDSCAPE_INV then 0xE8
             else 0x48)]\<rparr>"
    by (rule SetRotation_eq)
  show "ucast (ili9488_rotations ! unat (if 4 \<le> rotation then ILI9488_ROTATION_PORTRAIT else rotation))
     = (if rotation = ILI9488_ROTATION_PORTRAIT then 0x48
        else if rotation = ILI9488_ROTATION_LANDSCAPE then 0x28
        else if rotation = ILI9488_ROTATION_PORTRAIT_INV then 0x88
        else if rotation = ILI9488_ROTATION_LANDSCAPE_INV then 0xE8
        else (0x48 :: 32 word))"
  proof (cases "4 \<le> rotation")
    case True
    then have "rotation \<noteq> 0" "rotation \<noteq> 1" "rotation \<noteq> 2" "rotation \<noteq> 3"
      by (auto simp add: word_le_nat_alt)
    with True show ?thesis
      by (simp add: ili9488_rotations_def)
  next
    case False
    then have "rotation \<le> 3"
      by (simp add: word_le_nat_alt)
    then have "rotation = 0 \<or> rotation = 1 \<or> rotation = 2 \<or> rotation = 3"
      by (rule rotation_cases)
    with False show ?thesis
      by (auto simp add: ili9488_rotations_def)
  qed
qed

text \<open>
  Claim C10. When the stored orientation is none of the four enumerated values, the
  address-window operation and every drawing primitive (\<^verbatim>\<open>drawPixel\<close>, \<^verbatim>\<open>drawLine\<close>,
  \<^verbatim>\<open>drawRect\<close>, \<^verbatim>\<open>fillRect\<close>, \<^verbatim>\<open>drawCircle\<close>, \<^verbatim>\<open>fillCircle\<close>, \<^verbatim>\<open>fillBackground\<close>) return the
  driver state as it was: no command, no data, no change of the orientation. Such a state is
  reachable, since \<^verbatim>\<open>init\<close> stores the rotation it is given, whatever its value.
\<close>

theorem C10_unknown_rotation_draws_nothing:
  assumes "\<not> portrait_family (ili9488_rotation st)" and "\<not> landscape_family (ili9488_rotation st)"
  shows "ILI9488_SetAddressWindow x0 y0 x1 y1 st = st
    \<and> ILI9488_DrawPixel x y color st = st
    \<and> ILI9488_DrawLine x0 y0 x1 y1 color st = st
    \<and> ILI9488_DrawRect x y w h color st = st
    \<and> ILI9488_FillRect x y w h color st = st
    \<and> ILI9488_DrawCircle x y radius color st = st
    \<and> ILI9488_FillCircle x y radius color st = st
    \<and> ILI9488_FillBackground color st = st
    \<and> ili9488_rotation (ILI9488_Init (ili9488_rotation st) st0) = ili9488_rotation st"
  using assms
  by (simp add: ILI9488_SetAddressWindow_def ILI9488_DrawPixel_def ILI9488_DrawLine_def
      ILI9488_DrawRect_def ILI9488_FillRect_def ILI9488_DrawCircle_def ILI9488_FillCircle_def
      ILI9488_FillBackground_def family_defs Init_eq)

text \<open>The theorem at the state left by \<^verbatim>\<open>ILI9488_Init(7)\<close>.\<close>

theorem C10_unknown_rotation_draws_nothing_witness:
  "\<not> portrait_family (ili9488_rotation (ILI9488_Init 7 power_on))
   \<and> \<not> landscape_family (ili9488_rotation (ILI9488_Init 7 power_on))
   \<and> ILI9488_SetAddressWindow 0 0 319 479 (ILI9488_Init 7 power_on) = ILI9488_Init 7 power_on
   \<and> ILI9488_DrawPixel 10 20 0x3FFFF (ILI9488_Init 7 power_on) = ILI9488_Init 7 power_on
   \<and> ILI9488_DrawLine 0 0 319 479 0x3FFFF (ILI9488_Init 7 power_on) = ILI9488_Init 7 power_on
   \<and> ILI9488_DrawRect 10 20 30 40 0x3FFFF (ILI9488_Init 7 power_on) = ILI9488_Init 7 power_on
   \<and> ILI9488_FillRect 10 20 30 40 0x3FFFF (ILI9488_Init 7 power_on) = ILI9488_Init 7 power_on
   \<and> ILI9488_DrawCircle 10 20 5 0x3FFFF (ILI9488_Init 7 power_on) = ILI9488_Init 7 power_on
   \<and> ILI9488_FillCircle 10 20 5 0x3FFFF (ILI9488_Init 7 power_on) = ILI9488_Init 7 power_on
   \<and> ILI9488_FillBackground 0x3FFFF (ILI9488_Init 7 power_on) = ILI9488_Init 7 power_on
   \<and> ili9488_rotation (ILI9488_Init 7 power_on) = 7"
  using C10_unknown_rotation_draws_nothing
    [of "ILI9488_Init 7 power_on" 0 0 319 479 10 20 "0x3FFFF" 30 40 5 power_on]
  by (simp add: Init_eq family_defs)

subsection \<open>Drawing primitives\<close>

text \<open>
  Claim C6. For each of the four orientations, all \<open>(x, y)\<close> (within the extent of the
  orientation or not) and every colour, \<^verbatim>\<open>drawPixel\<close> issues the address window of the single
  point \<open>(x,y,x,y)\<close>, with the coordinates swapped to \<open>(y,x,y,x)\<close> in the landscape family,
  followed by exactly one data write, whose value is the colour masked to its low 18 bits.
\<close>

theorem C6_DrawPixel:
  assumes "portrait_family (ili9488_rotation st) \<or> landscape_family (ili9488_rotation st)"
  shows "ILI9488_DrawPixel x y color st =
      st\<lparr>bus := bus st
        @ (if landscape_family (ili9488_rotation st)
           then window (ili9488_rotation st) y x y x
           else window (ili9488_rotation st) x y x y)
        @ [Data (color AND 0x3FFFF)]\<rparr>
    \<and> color AND 0x3FFFF = take_bit 18 color"
proof
  have excl: "landscape_family (ili9488_rotation st) \<longleftrightarrow> \<not> portrait_family (ili9488_rotation st)"
    using assms by (auto simp add: family_defs)
  show "ILI9488_DrawPixel x y color st =
      st\<lparr>bus := bus st
        @ (if landscape_family (ili9488_rotation st)
           then window (ili9488_rotation st) y x y x
           else window (ili9488_rotation st) x y x y)
        @ [Data (color AND 0x3FFFF)]\<rparr>"
    by (simp add: DrawPixel_eq excl)
  show "color AND 0x3FFFF = take_bit 18 color"
    by (simp add: take_bit_eq_mask mask_eq_exp_minus_1)
qed

text \<open>The theorem at concrete inputs, in a portrait and in a landscape orientation.\<close>

theorem C6_DrawPixel_witness:
  "portrait_family (ili9488_rotation power_on)
   \<and> ILI9488_DrawPixel 10 20 0x3FFFFF power_on =
       \<lparr>ili9488_rotation = ILI9488_ROTATION_PORTRAIT,
        bus = [Command CMD_COLUMN_ADDR, Data 0, Data 10, Data 0, Data 10,
               Command CMD_PAGE_ADDR, Data 0, Data 20, Data 0, Data 20,
               Command CMD_MEMORY_WRITE, Data 0x3FFFF]\<rparr>
   \<and> landscape_family (ili9488_rotation (ILI9488_Init ILI9488_ROTATION_LANDSCAPE power_on))
   \<and> bus (ILI9488_DrawPixel 10 20 0x3FFFFF (ILI9488_Init ILI9488_ROTATION_LANDSCAPE power_on)) =
       bus (ILI9488_Init ILI9488_ROTATION_LANDSCAPE power_on)
       @ window ILI9488_ROTATION_LANDSCAPE 20 10 20 10 @ [Data 0x3FFFF]"
  using C6_DrawPixel [of power_on 10 20 "0x3FFFFF"]
    C6_DrawPixel [of "ILI9488_Init ILI9488_ROTATION_LANDSCAPE power_on" 10 20 "0x3FFFFF"]
  by (simp add: power_on_def Init_eq window_defs)

text \<open>
  Claim C4. For each of the four orientations and all \<open>x\<close>, \<open>y\<close>, \<open>w\<close>, \<open>h\<close>, \<open>c\<close>,
  \<^verbatim>\<open>fillRect(x,y,w,h,c)\<close> issues the window \<open>(x,y,x+w-1,y+h-1)\<close>, with the axes swapped,
  \<open>(y,x,y+h-1,x+w-1)\<close>, in the landscape family (coordinates are 16-bit), followed by
  exactly \<open>w * h\<close> data writes, each equal to \<open>c AND 0x3FFFF\<close>. In particular, after
  \<^verbatim>\<open>init(Portrait)\<close>, \<^verbatim>\<open>fillRect(0,0,320,480,0x3FFFFF)\<close> produces one column-address
  transaction for \<open>(0,319)\<close>, one page-address transaction for \<open>(0,479)\<close>, one memory-write
  command, then exactly 153600 data writes of 0x3FFFF.
\<close>

theorem C4_FillRect:
  assumes "portrait_family (ili9488_rotation st) \<or> landscape_family (ili9488_rotation st)"
  shows "ILI9488_FillRect x y w h color st =
      st\<lparr>bus := bus st
        @ (if landscape_family (ili9488_rotation st)
           then window (ili9488_rotation st) y x (y + h - 1) (x + w - 1)
           else window (ili9488_rotation st) x y (x + w - 1) (y + h - 1))
        @ replicate (unat w * unat h) (Data (color AND 0x3FFFF))\<rparr>
    \<and> ILI9488_FillRect 0 0 320 480 0x3FFFFF (ILI9488_Init ILI9488_ROTATION_PORTRAIT st0) =
      (ILI9488_Init ILI9488_ROTATION_PORTRAIT st0)
        \<lparr>bus := bus (ILI9488_Init ILI9488_ROTATION_PORTRAIT st0)
          @ address_range CMD_COLUMN_ADDR 0 319 @ address_range CMD_PAGE_ADDR 0 479
          @ [Command CMD_MEMORY_WRITE] @ replicate 153600 (Data 0x3FFFF)\<rparr>"
proof
  have excl: "landscape_family (ili9488_rotation st) \<longleftrightarrow> \<not> portrait_family (ili9488_rotation st)"
    using assms by (auto simp add: family_defs)
  show "ILI9488_FillRect x y w h color st =
      st\<lparr>bus := bus st
        @ (if landscape_family (ili9488_rotation st)
           then window (ili9488_rotation st) y x (y + h - 1) (x + w - 1)
           else window (ili9488_rotation st) x y (x + w - 1) (y + h - 1))
        @ replicate (unat w * unat h) (Data (color AND 0x3FFFF))\<rparr>"
    by (simp add: FillRect_eq excl)
  show "ILI9488_FillRect 0 0 320 480 0x3FFFFF (ILI9488_Init ILI9488_ROTATION_PORTRAIT st0) =
      (ILI9488_Init ILI9488_ROTATION_PORTRAIT st0)
        \<lparr>bus := bus (ILI9488_Init ILI9488_ROTATION_PORTRAIT st0)
          @ address_range CMD_COLUMN_ADDR 0 319 @ address_range CMD_PAGE_ADDR 0 479
          @ [Command CMD_MEMORY_WRITE] @ replicate 153600 (Data 0x3FFFF)\<rparr>"
    by (simp add: FillRect_eq Init_eq window_def family_defs)
qed

text \<open>The theorem at concrete inputs, in a portrait and in a landscape orientation.\<close>

theorem C4_FillRect_witness:
  "portrait_family (ili9488_rotation (ILI9488_Init ILI9488_ROTATION_PORTRAIT power_on))
   \<and> ILI9488_FillRect 0 0 320 480 0x3FFFFF (ILI9488_Init ILI9488_ROTATION_PORTRAIT power_on) =
     \<lparr>ili9488_rotation = ILI9488_ROTATION_PORTRAIT,
      bus = [Reset False, Delay 20, Reset True, Delay 120,
             Command CMD_SLEEP_OUT, Delay 120, Command CMD_PIXEL_FORMAT, Data 0x66,
             Command CMD_MEMORY_ACCESS, Data 0x48, Command CMD_DISPLAY_ON, Delay 20,
             Command CMD_COLUMN_ADDR, Data 0, Data 0, Data 1, Data 0x3F,
             Command CMD_PAGE_ADDR, Data 0, Data 0, Data 1, Data 0xDF,
             Command CMD_MEMORY_WRITE] @ replicate 153600 (Data 0x3FFFF)\<rparr>
   \<and> landscape_family (ili9488_rotation (ILI9488_Init ILI9488_ROTATION_LANDSCAPE power_on))
   \<and> bus (ILI9488_FillRect 3 4 2 5 0x3F (ILI9488_Init ILI9488_ROTATION_LANDSCAPE power_on)) =
      bus (ILI9488_Init ILI9488_ROTATION_LANDSCAPE power_on)
      @ window ILI9488_ROTATION_LANDSCAPE 4 3 8 4 @ replicate 10 (Data 0x3F)"
  using C4_FillRect [of "ILI9488_Init ILI9488_ROTATION_PORTRAIT power_on" 0 0 320 480 "0x3FFFFF"]
    C4_FillRect [of "ILI9488_Init ILI9488_ROTATION_LANDSCAPE power_on" 3 4 2 5 "0x3F"]
  by (simp add: power_on_def Init_eq window_defs)

text \<open>
  Claim C8. For every stored orientation and all arguments, \<^verbatim>\<open>drawRect(x,y,w,h,c)\<close> produces
  exactly the command and data sequence of \<^verbatim>\<open>fillRect(x,y,w,h,c)\<close>: the window
  \<open>(x,y,x+w-1,y+h-1)\<close> (swapped in the landscape family) and \<open>w * h\<close> data writes. It fills
  the rectangle instead of drawing its outline.
\<close>

theorem C8_DrawRect_is_FillRect:
  "ILI9488_DrawRect x y w h color st = ILI9488_FillRect x y w h color st
   \<and> ILI9488_DrawRect x y w h color st =
      (if portrait_family (ili9488_rotation st) then
         st\<lparr>bus := bus st @ window (ili9488_rotation st) x y (x + w - 1) (y + h - 1)
                  @ replicate (unat w * unat h) (Data (color AND 0x3FFFF))\<rparr>
       else if landscape_family (ili9488_rotation st) then
         st\<lparr>bus := bus st @ window (ili9488_rotation st) y x (y + h - 1) (x + w - 1)
                  @ replicate (unat w * unat h) (Data (color AND 0x3FFFF))\<rparr>
       else st)"
proof -
  have "ILI9488_DrawRect x y w h color st = ILI9488_FillRect x y w h color st"
    by (simp add: ILI9488_DrawRect_def ILI9488_FillRect_def)
  then show ?thesis
    by (simp only: FillRect_eq simp_thms)
qed

text \<open>
  Claim C7. For each of the four orientations and every colour \<open>c\<close>, \<^verbatim>\<open>fillBackground(c)\<close>
  issues the window spanning \<open>(0,0)\<close> to \<open>(width-1,height-1)\<close> for the dimensions of the
  active orientation (320 by 480 in the portrait family, 480 by 320 in the landscape
  family), followed by exactly width times height data writes of \<open>c AND 0x3FFFF\<close>.
\<close>

theorem C7_FillBackground:
  assumes "portrait_family (ili9488_rotation st) \<or> landscape_family (ili9488_rotation st)"
  shows "ILI9488_FillBackground color st =
      st\<lparr>bus := bus st
        @ window (ili9488_rotation st) 0 0
            (panel_width (ili9488_rotation st) - 1) (panel_height (ili9488_rotation st) - 1)
        @ replicate (unat (panel_width (ili9488_rotation st))
                     * unat (panel_height (ili9488_rotation st)))
            (Data (color AND 0x3FFFF))\<rparr>"
proof -
  have excl: "landscape_family (ili9488_rotation st) \<longleftrightarrow> \<not> portrait_family (ili9488_rotation st)"
    using assms by (auto simp add: family_defs)
  show ?thesis
    by (simp add: FillBackground_eq excl panel_width_def panel_height_def)
qed

text \<open>The theorem at concrete inputs, in a portrait and in a landscape orientation.\<close>

theorem C7_FillBackground_witness:
  "portrait_family (ili9488_rotation (ILI9488_Init ILI9488_ROTATION_PORTRAIT_INV power_on))
   \<and> bus (ILI9488_FillBackground 0x3FFFFF (ILI9488_Init ILI9488_ROTATION_PORTRAIT_INV power_on)) =
      bus (ILI9488_Init ILI9488_ROTATION_PORTRAIT_INV power_on)
      @ [Command CMD_COLUMN_ADDR, Data 0, Data 0, Data 1, Data 0x3F,
         Command CMD_PAGE_ADDR, Data 0, Data 0, Data 1, Data 0xDF,
         Command CMD_MEMORY_WRITE] @ replicate 153600 (Data 0x3FFFF)
   \<and> landscape_family (ili9488_rotation (ILI9488_Init ILI9488_ROTATION_LANDSCAPE power_on))
   \<and> bus (ILI9488_FillBackground 0x3FFFFF (ILI9488_Init ILI9488_ROTATION_LANDSCAPE power_on)) =
      bus (ILI9488_Init ILI9488_ROTATION_LANDSCAPE power_on)
      @ window ILI9488_ROTATION_LANDSCAPE 0 0 479 319 @ replicate 153600 (Data 0x3FFFF)"
  using C7_FillBackground [of "ILI9488_Init ILI9488_ROTATION_PORTRAIT_INV power_on" "0x3FFFFF"]
    C7_FillBackground [of "ILI9488_Init ILI9488_ROTATION_LANDSCAPE power_on" "0x3FFFFF"]
  by (simp add: power_on_def Init_eq window_defs panel_width_def panel_height_def)

text \<open>
  Claim C3 says that \<^verbatim>\<open>drawLine\<close>, \<^verbatim>\<open>drawCircle\<close> and \<^verbatim>\<open>fillCircle\<close> set an address window
  sized to the full panel extent and then write width times height colour words. The number
  of words is right, the window is not: in portrait, \<^verbatim>\<open>drawLine(5,7,5,7,0)\<close> sets the
  one-pixel window \<open>(5,7,5,7)\<close> and \<^verbatim>\<open>drawCircle(5,7,3,0)\<close> the window \<open>(5,7,8,10)\<close>, neither
  of which is the full extent \<open>(0,0,319,479)\<close>.
\<close>

theorem C3_counterexample:
  "ILI9488_DrawLine 5 7 5 7 0 power_on =
     \<lparr>ili9488_rotation = ILI9488_ROTATION_PORTRAIT,
      bus = [Command CMD_COLUMN_ADDR, Data 0, Data 5, Data 0, Data 5,
             Command CMD_PAGE_ADDR, Data 0, Data 7, Data 0, Data 7,
             Command CMD_MEMORY_WRITE] @ replicate 153600 (Data 0)\<rparr>
   \<and> ILI9488_DrawLine 5 7 5 7 0 power_on \<noteq>
     \<lparr>ili9488_rotation = ILI9488_ROTATION_PORTRAIT,
      bus = window ILI9488_ROTATION_PORTRAIT 0 0 319 479 @ replicate 153600 (Data 0)\<rparr>
   \<and> ILI9488_DrawCircle 5 7 3 0 power_on =
     \<lparr>ili9488_rotation = ILI9488_ROTATION_PORTRAIT,
      bus = [Command CMD_COLUMN_ADDR, Data 0, Data 5, Data 0, Data 8,
             Command CMD_PAGE_ADDR, Data 0, Data 7, Data 0, Data 10,
             Command CMD_MEMORY_WRITE] @ replicate 153600 (Data 0)\<rparr>
   \<and> ILI9488_DrawCircle 5 7 3 0 power_on \<noteq>
     \<lparr>ili9488_rotation = ILI9488_ROTATION_PORTRAIT,
      bus = window ILI9488_ROTATION_PORTRAIT 0 0 319 479 @ replicate 153600 (Data 0)\<rparr>"
  by (simp add: DrawLine_eq DrawCircle_eq window_defs power_on_def)

text \<open>
  Claim C3, as the code has it. For each of the four orientations and all arguments,
  \<^verbatim>\<open>drawLine(x0,y0,x1,y1,c)\<close> sets the address window \<open>(x0,y0,x1,y1)\<close> of its own arguments
  (\<open>(y0,x0,y1,x1)\<close> in the landscape family), and \<^verbatim>\<open>drawCircle(x0,y0,radius,c)\<close> and
  \<^verbatim>\<open>fillCircle(x0,y0,radius,c)\<close> set the window \<open>(x0,y0,x0+radius,y0+radius)\<close>
  (\<open>(y0,x0,y0+radius,x0+radius)\<close> in the landscape family), the sums taken in 16 bits; each
  then writes exactly width times height (153600) colour words \<open>c AND 0x3FFFF\<close>, the pixel
  count of the whole screen in the current orientation.
\<close>

theorem C3_line_and_circle_windows:
  assumes "portrait_family (ili9488_rotation st) \<or> landscape_family (ili9488_rotation st)"
  shows "ILI9488_DrawLine x0 y0 x1 y1 color st =
      st\<lparr>bus := bus st
        @ (if landscape_family (ili9488_rotation st)
           then window (ili9488_rotation st) y0 x0 y1 x1
           else window (ili9488_rotation st) x0 y0 x1 y1)
        @ replicate (unat (panel_width (ili9488_rotation st))
                     * unat (panel_height (ili9488_rotation st)))
            (Data (color AND 0x3FFFF))\<rparr>
    \<and> ILI9488_DrawCircle x0 y0 radius color st =
      st\<lparr>bus := bus st
        @ (if landscape_family (ili9488_rotation st)
           then window (ili9488_rotation st) y0 x0 (y0 + radius) (x0 + radius)
           else window (ili9488_rotation st) x0 y0 (x0 + radius) (y0 + radius))
        @ replicate (unat (panel_width (ili9488_rotation st))
                     * unat (panel_height (ili9488_rotation st)))
            (Data (color AND 0x3FFFF))\<rparr>
    \<and> ILI9488_FillCircle x0 y0 radius color st =
      st\<lparr>bus := bus st
        @ (if landscape_family (ili9488_rotation st)
           then window (ili9488_rotation st) y0 x0 (y0 + radius) (x0 + radius)
           else window (ili9488_rotation st) x0 y0 (x0 + radius) (y0 + radius))
        @ replicate (unat (panel_width (ili9488_rotation st))
                     * unat (panel_height (ili9488_rotation st)))
            (Data (color AND 0x3FFFF))\<rparr>"
proof -
  have n: "unat (panel_width (ili9488_rotation st)) * unat (panel_height (ili9488_rotation st))
      = 153600"
    by (simp add: panel_width_def panel_height_def)
  have excl: "landscape_family (ili9488_rotation st) \<longleftrightarrow> \<not> portrait_family (ili9488_rotation st)"
    using assms by (auto simp add: family_defs)
  show ?thesis
    unfolding n by (simp add: DrawLine_eq DrawCircle_eq FillCircle_eq excl)
qed

text \<open>The theorem at concrete inputs, in a portrait and in a landscape orientation.\<close>

theorem C3_line_and_circle_windows_witness:
  "portrait_family (ili9488_rotation power_on)
   \<and> ILI9488_DrawLine 5 7 5 7 0x3FFFFF power_on =
     \<lparr>ili9488_rotation = ILI9488_ROTATION_PORTRAIT,
      bus = [Command CMD_COLUMN_ADDR, Data 0, Data 5, Data 0, Data 5,
             Command CMD_PAGE_ADDR, Data 0, Data 7, Data 0, Data 7,
             Command CMD_MEMORY_WRITE] @ replicate 153600 (Data 0x3FFFF)\<rparr>
   \<and> landscape_family (ili9488_rotation (ILI9488_Init ILI9488_ROTATION_LANDSCAPE_INV power_on))
   \<and> bus (ILI9488_FillCircle 5 7 3 0x3FFFFF (ILI9488_Init ILI9488_ROTATION_LANDSCAPE_INV power_on)) =
      bus (ILI9488_Init ILI9488_ROTATION_LANDSCAPE_INV power_on)
      @ [Command CMD_COLUMN_ADDR, Data 0, Data 5, Data 0, Data 8,
         Command CMD_PAGE_ADDR, Data 0, Data 7, Data 0, Data 10,
         Command CMD_MEMORY_WRITE] @ replicate 153600 (Data 0x3FFFF)"
  using C3_line_and_circle_windows [of power_on 5 7 5 7 "0x3FFFFF" 0]
    C3_line_and_circle_windows
      [of "ILI9488_Init ILI9488_ROTATION_LANDSCAPE_INV power_on" 5 7 0 0 "0x3FFFFF" 3]
  by (simp add: power_on_def Init_eq window_defs panel_width_def panel_height_def)

subsection \<open>Power control\<close>

text \<open>
  Claim C9. \<^verbatim>\<open>sleep()\<close> followed by \<^verbatim>\<open>wakeUp()\<close> issues exactly the commands display-off (0x28),
  sleep-in (0x10), display-on (0x29), sleep-out (0x11), in that order, and asks the blocking
  delay for 20 ms after display-off, 120 ms after sleep-in, 20 ms after display-on and 20 ms
  after sleep-out. The stored orientation is untouched.
\<close>

theorem C9_Sleep_then_WakeUp:
  "ILI9488_WakeUp (ILI9488_Sleep st) =
     st\<lparr>bus := bus st @ [Command CMD_DISPLAY_OFF, Delay 20, Command CMD_SLEEP_IN, Delay 120,
                          Command CMD_DISPLAY_ON, Delay 20, Command CMD_SLEEP_OUT, Delay 20]\<rparr>"
  by (simp add: ILI9488_WakeUp_def ILI9488_Sleep_def ILI9488_DisplayOn_def
      ILI9488_DisplayOff_def ILI9488_WriteCommand_def HAL_Delay_def Let_def)

end
